theory Spec2Isabelle
  imports Main "HOL-Library.Multiset"
begin

section \<open>Python strings and the builtins the sources call\<close>

text \<open>
  A Python \<open>str\<close> is a sequence of code points: \<open>len\<close> and slicing count code points,
  so a string is modelled as the list of its code points. \<open>u\<close> turns a literal into it.
\<close>

type_synonym pystr = "nat list"

definition u :: "string \<Rightarrow> pystr" where
  "u s = map of_char s"

text \<open>\<open>str.isspace\<close> on one code point: the characters \<open>str.strip()\<close> removes.\<close>

definition py_isspace :: "nat \<Rightarrow> bool" where
  "py_isspace c =
     ((9 \<le> c \<and> c \<le> 13) \<or> (28 \<le> c \<and> c \<le> 32) \<or> c = 133 \<or> c = 160 \<or> c = 5760
      \<or> (8192 \<le> c \<and> c \<le> 8202) \<or> c = 8232 \<or> c = 8233 \<or> c = 8239 \<or> c = 8287
      \<or> c = 12288)"

definition py_strip :: "pystr \<Rightarrow> pystr" where
  "py_strip s = rev (dropWhile py_isspace (rev (dropWhile py_isspace s)))"

text \<open>\<open>s.strip(chars)\<close> for an explicit set of characters.\<close>

definition py_strip_chars :: "nat list \<Rightarrow> pystr \<Rightarrow> pystr" where
  "py_strip_chars cs s =
     rev (dropWhile (\<lambda>c. c \<in> set cs) (rev (dropWhile (\<lambda>c. c \<in> set cs) s)))"

definition startswith :: "pystr \<Rightarrow> pystr \<Rightarrow> bool" where
  "startswith s p = (take (length p) s = p)"

definition endswith :: "pystr \<Rightarrow> pystr \<Rightarrow> bool" where
  "endswith s p = (length p \<le> length s \<and> drop (length s - length p) s = p)"

text \<open>\<open>s.find(p)\<close>: the lowest index where \<open>p\<close> occurs, \<open>-1\<close> when it does not.\<close>

fun find_from :: "nat \<Rightarrow> pystr \<Rightarrow> pystr \<Rightarrow> int" where
  "find_from i p [] = (if p = [] then int i else - 1)"
| "find_from i p (c # cs) =
     (if take (length p) (c # cs) = p then int i else find_from (Suc i) p cs)"

definition py_find :: "pystr \<Rightarrow> pystr \<Rightarrow> int" where
  "py_find s p = find_from 0 p s"

text \<open>\<open>s.rfind(p)\<close>: the highest index where \<open>p\<close> occurs, \<open>-1\<close> when it does not.\<close>

fun rfind_from :: "nat \<Rightarrow> int \<Rightarrow> pystr \<Rightarrow> pystr \<Rightarrow> int" where
  "rfind_from i found p [] = (if p = [] then int i else found)"
| "rfind_from i found p (c # cs) =
     rfind_from (Suc i) (if take (length p) (c # cs) = p then int i else found) p cs"

definition py_rfind :: "pystr \<Rightarrow> pystr \<Rightarrow> int" where
  "py_rfind s p = rfind_from 0 (- 1) p s"

text \<open>\<open>s[a:b]\<close> for indices that are not negative.\<close>

definition py_slice :: "pystr \<Rightarrow> nat \<Rightarrow> nat \<Rightarrow> pystr" where
  "py_slice s a b = take (b - a) (drop a s)"

text \<open>\<open>s.replace('\\"', '"')\<close>: every backslash (92) followed by a quote (34) becomes a quote,
  scanning from the left without overlap.\<close>

fun replace_escaped_quotes :: "pystr \<Rightarrow> pystr" where
  "replace_escaped_quotes [] = []"
| "replace_escaped_quotes [c] = [c]"
| "replace_escaped_quotes (c # d # cs) =
     (if c = 92 \<and> d = 34 then 34 # replace_escaped_quotes cs
      else c # replace_escaped_quotes (d # cs))"

text \<open>\<open>s.split(sep)\<close> for a separator of one character.\<close>

fun py_split :: "nat \<Rightarrow> pystr \<Rightarrow> pystr list" where
  "py_split sep [] = [[]]"
| "py_split sep (c # cs) =
     (if c = sep then [] # py_split sep cs
      else (case py_split sep cs of [] \<Rightarrow> [[c]] | l # ls \<Rightarrow> (c # l) # ls))"

text \<open>\<open>str(n)\<close> for a natural number: its decimal digits.\<close>

function str_nat :: "nat \<Rightarrow> pystr" where
  "str_nat n = (if n < 10 then [48 + n] else str_nat (n div 10) @ [48 + n mod 10])"
  by pat_completeness auto
termination
  by (relation "measure (\<lambda>n. n)") auto

declare str_nat.simps [simp del]

text \<open>\<open>min(xs, key=k)\<close> keeps the first element whose key is smallest: the running best is
  replaced only by a strictly smaller key. On an empty list Python raises \<open>ValueError\<close>.\<close>

fun min_from :: "('a \<Rightarrow> int) \<Rightarrow> 'a \<Rightarrow> 'a list \<Rightarrow> 'a" where
  "min_from k best [] = best"
| "min_from k best (x # xs) = min_from k (if k x < k best then x else best) xs"

definition py_min :: "('a \<Rightarrow> int) \<Rightarrow> 'a list \<Rightarrow> 'a option" where
  "py_min k xs = (case xs of [] \<Rightarrow> None | x # rest \<Rightarrow> Some (min_from k x rest))"

text \<open>\<open>sorted(xs, key=k)\<close> is a stable sort; \<open>sort_key\<close> is the stable sort of the library.\<close>

definition py_sorted :: "('a \<Rightarrow> int) \<Rightarrow> 'a list \<Rightarrow> 'a list" where
  "py_sorted k xs = sort_key k xs"

text \<open>\<open>d.get(key, default)\<close> on a key that may be missing.\<close>

definition dict_get :: "'a option \<Rightarrow> 'a \<Rightarrow> 'a" where
  "dict_get v dflt = (case v of None \<Rightarrow> dflt | Some x \<Rightarrow> x)"


section \<open>The task models (crews/agents/leetcode\_tasks.py)\<close>

record SolutionApproach =
  title :: pystr
  content :: pystr
  rank :: int
  time_complexity :: pystr
  space_complexity :: pystr
  code :: pystr
  edge_cases :: pystr
  test_examples :: pystr

text \<open>The field \<open>id\<close> of \<open>Criteria\<close> is named \<open>id_c\<close> here.\<close>

record Criteria =
  id_c :: pystr
  description :: pystr


section \<open>The crew (crews/leetcode\_crew.py)\<close>

record SolutionResult =
  sr_approaches :: "SolutionApproach list"
  sr_criteria :: "Criteria list"
  sr_status :: pystr
  sr_error :: pystr

text \<open>
  What \<open>task.output\<close> looks like after \<open>crew.kickoff()\<close>: it has no attribute
  \<open>pydantic\<close>, or the attribute is \<open>None\<close>, or it is the model the task declares
  (\<open>output_pydantic\<close>), of which only the list is kept here.
\<close>

datatype 'a task_output = NoPydanticAttr | PydanticNone | Pydantic 'a

text \<open>One run of the crew: the tasks or \<open>kickoff\<close> raise, with the exception's text, or
  both tasks finish with their outputs.\<close>

datatype crew_run =
    Raises pystr
  | Finished "SolutionApproach list task_output" "Criteria list task_output"

definition fallback_approach :: SolutionApproach where
  "fallback_approach =
     \<lparr>title = u ''Fallback Solution'',
      content = u ''No structured approaches were generated. Please try again.'',
      rank = 1, time_complexity = [], space_complexity = [], code = [],
      edge_cases = [], test_examples = []\<rparr>"

definition fallback_criterion :: Criteria where
  "fallback_criterion =
     \<lparr>id_c = u ''fallbackCriterion'',
      description = u ''No structured criteria were generated.''\<rparr>"

text \<open>The first \<open>try\<close> block: \<open>hasattr(None, 'approaches')\<close> is false, so a \<open>None\<close> model
  takes the same branch as a model without approaches.\<close>

definition process_approaches :: "SolutionApproach list task_output \<Rightarrow> SolutionApproach list" where
  "process_approaches out =
     (case out of
        Pydantic approaches_list \<Rightarrow> py_sorted rank approaches_list
      | PydanticNone \<Rightarrow> [fallback_approach]
      | NoPydanticAttr \<Rightarrow> [fallback_approach])"

text \<open>The second \<open>try\<close> block gives the criteria and the text appended to \<open>error\<close>:
  \<open>criteria_data.criteria\<close> on \<open>None\<close> raises \<open>AttributeError\<close>, the handler only records it.\<close>

definition attribute_error_text :: pystr where
  "attribute_error_text =
     [39] @ u ''NoneType'' @ [39] @ u '' object has no attribute '' @ [39] @ u ''criteria'' @ [39]"

definition process_criteria :: "Criteria list task_output \<Rightarrow> Criteria list \<times> pystr" where
  "process_criteria out =
     (case out of
        Pydantic criteria_list \<Rightarrow> (criteria_list, [])
      | PydanticNone \<Rightarrow> ([], u '' Error parsing educational insights: '' @ attribute_error_text)
      | NoPydanticAttr \<Rightarrow> ([fallback_criterion], []))"

text \<open>\<open>SolutionResult.dict()\<close>: every field of every model becomes a key of a dictionary. The
  dictionaries are read with \<open>.get\<close>, so a key is an option; \<open>pattern\<close> is no field of
  \<open>Criteria\<close> and is never there.\<close>

record approach_dict =
  d_title :: "pystr option"
  d_content :: "pystr option"
  d_rank :: "int option"
  d_time_complexity :: "pystr option"
  d_space_complexity :: "pystr option"
  d_code :: "pystr option"
  d_edge_cases :: "pystr option"
  d_test_examples :: "pystr option"

record criterion_dict =
  d_id :: "pystr option"
  d_description :: "pystr option"
  d_pattern :: "pystr option"

record result_dict =
  d_approaches :: "approach_dict list"
  d_criteria :: "criterion_dict list"
  d_status :: pystr
  d_error :: pystr

definition approach_to_dict :: "SolutionApproach \<Rightarrow> approach_dict" where
  "approach_to_dict a =
     \<lparr>d_title = Some (title a), d_content = Some (content a), d_rank = Some (rank a),
      d_time_complexity = Some (time_complexity a),
      d_space_complexity = Some (space_complexity a), d_code = Some (code a),
      d_edge_cases = Some (edge_cases a), d_test_examples = Some (test_examples a)\<rparr>"

definition criterion_to_dict :: "Criteria \<Rightarrow> criterion_dict" where
  "criterion_to_dict c =
     \<lparr>d_id = Some (id_c c), d_description = Some (description c), d_pattern = None\<rparr>"

definition to_dict :: "SolutionResult \<Rightarrow> result_dict" where
  "to_dict r =
     \<lparr>d_approaches = map approach_to_dict (sr_approaches r),
      d_criteria = map criterion_to_dict (sr_criteria r),
      d_status = sr_status r, d_error = sr_error r\<rparr>"

text \<open>\<open>LeetCodeCrew.solve_leetcode_problem\<close>, given what the crew's run produced.\<close>

definition solve_leetcode_problem :: "crew_run \<Rightarrow> result_dict" where
  "solve_leetcode_problem run =
     (case run of
        Raises e \<Rightarrow>
          to_dict \<lparr>sr_approaches = [], sr_criteria = [], sr_status = u ''error'',
                   sr_error = u ''Error in LeetCodeCrew: '' @ e\<rparr>
      | Finished solution_output criteria_output \<Rightarrow>
          to_dict \<lparr>sr_approaches = process_approaches solution_output,
                   sr_criteria = fst (process_criteria criteria_output),
                   sr_status = u ''success'',
                   sr_error = snd (process_criteria criteria_output)\<rparr>)"

section \<open>The endpoint (crew\_api.py)\<close>

text \<open>The request model; the fields the endpoint never reads are left out.\<close>

record LeetCodeSolutionRequest =
  req_title :: pystr
  req_content :: pystr
  programmingLanguage :: "pystr option"
  programLanguage :: "pystr option"
  req_language :: "pystr option"

text \<open>Python's truth value of an optional string: \<open>None\<close> and \<open>""\<close> are false.\<close>

definition truthy :: "pystr option \<Rightarrow> bool" where
  "truthy v = (case v of None \<Rightarrow> False | Some s \<Rightarrow> s \<noteq> [])"

text \<open>The model validator, run when the request is built.\<close>

definition check_language_field :: "LeetCodeSolutionRequest \<Rightarrow> LeetCodeSolutionRequest" where
  "check_language_field self =
     (if \<not> (truthy (programmingLanguage self) \<or> truthy (programLanguage self)
             \<or> truthy (req_language self))
      then self\<lparr>programmingLanguage := Some (u ''python'')\<rparr>
      else self)"

text \<open>\<open>next((lang for lang in langs if lang), default)\<close>.\<close>

fun next_truthy :: "pystr option list \<Rightarrow> pystr \<Rightarrow> pystr" where
  "next_truthy [] dflt = dflt"
| "next_truthy (None # langs) dflt = next_truthy langs dflt"
| "next_truthy (Some lang # langs) dflt = (if lang \<noteq> [] then lang else next_truthy langs dflt)"

record ApproachResponse =
  r_title :: pystr
  r_content :: pystr
  r_rank :: int
  r_time_complexity :: pystr
  r_space_complexity :: pystr
  r_code :: pystr
  r_edge_cases :: pystr
  r_test_examples :: pystr

record criterion_out =
  id_r :: pystr
  description_r :: pystr
  pattern_r :: pystr

text \<open>The dictionary the endpoint returns on success. \<open>solution_criteria\<close> is a dictionary
  that is either empty (\<open>None\<close> here) or has the one key \<open>criteria\<close>.\<close>

record result =
  leetcode_problem :: pystr
  language :: pystr
  approaches :: "ApproachResponse list"
  solution_criteria :: "criterion_out list option"
  status :: pystr
  solutions :: "approach_dict list"
  introduction :: pystr
  full_text :: pystr
  approach_count :: nat

text \<open>What a call of the endpoint ends with: the result dictionary, the dictionary
  \<open>{"status": "error", "message": m}\<close>, or a raised \<open>HTTPException\<close>.\<close>

datatype response =
    Result result
  | ErrorDict pystr
  | HTTPException nat pystr

text \<open>The process state the endpoint touches: the environment variable, whether
  \<open>get_leetcode_crew\<close> already holds a crew, what the crew's agents produce for a problem
  and a language, and the calls of \<open>crew.solve_leetcode_problem\<close> made so far. Building
  the crew object itself (\<open>LeetCodeCrew(api_key=...)\<close>) is taken to succeed.\<close>

record world =
  OPENAI_API_KEY :: "pystr option"
  has_crew :: bool
  kickoff :: "pystr \<Rightarrow> pystr \<Rightarrow> crew_run"
  solve_calls :: "(pystr \<times> pystr) list"

definition get_leetcode_crew :: "world \<Rightarrow> response + world" where
  "get_leetcode_crew w =
     (if \<not> has_crew w then
        (if \<not> truthy (OPENAI_API_KEY w)
         then Inl (HTTPException 500
                (u ''OpenAI API key not found. Please set the OPENAI_API_KEY environment variable.''))
         else Inr (w\<lparr>has_crew := True\<rparr>))
      else Inr w)"

definition to_ApproachResponse :: "approach_dict \<Rightarrow> ApproachResponse" where
  "to_ApproachResponse approach_dict =
     \<lparr>r_title = dict_get (d_title approach_dict) [],
      r_content = dict_get (d_content approach_dict) [],
      r_rank = dict_get (d_rank approach_dict) 999,
      r_time_complexity = dict_get (d_time_complexity approach_dict) [],
      r_space_complexity = dict_get (d_space_complexity approach_dict) [],
      r_code = dict_get (d_code approach_dict) [],
      r_edge_cases = dict_get (d_edge_cases approach_dict) [],
      r_test_examples = dict_get (d_test_examples approach_dict) []\<rparr>"

text \<open>\<open>x or y\<close> on strings.\<close>

definition str_or :: "pystr \<Rightarrow> pystr \<Rightarrow> pystr" where
  "str_or x y = (if x \<noteq> [] then x else y)"

text \<open>One section of \<open>full_text\<close>, for the approach at index \<open>i\<close>; 10 is the newline.\<close>

definition full_text_parts :: "pystr \<Rightarrow> nat \<Rightarrow> ApproachResponse \<Rightarrow> pystr" where
  "full_text_parts lang i approach =
     u ''## Approach '' @ str_nat (i + 1) @ u '': '' @ str_or (r_title approach) (u ''Solution'')
       @ [10, 10]
     @ r_content approach @ [10, 10]
     @ u ''**Time Complexity**: '' @ str_or (r_time_complexity approach) (u ''Not specified'')
       @ [10]
     @ u ''**Space Complexity**: '' @ str_or (r_space_complexity approach) (u ''Not specified'')
       @ [10, 10]
     @ (if r_code approach \<noteq> []
        then u ''```'' @ lang @ [10] @ r_code approach @ [10] @ u ''```'' @ [10, 10] else [])
     @ (if r_edge_cases approach \<noteq> []
        then u ''**Edge Cases**: '' @ r_edge_cases approach @ [10, 10] else [])
     @ (if r_test_examples approach \<noteq> []
        then u ''**Test Examples**:'' @ [10] @ r_test_examples approach @ [10, 10] else [])"

definition make_full_text :: "pystr \<Rightarrow> ApproachResponse list \<Rightarrow> pystr" where
  "make_full_text lang approach_responses =
     concat (map (\<lambda>(i, approach). full_text_parts lang i approach)
                 (zip [0..<length approach_responses] approach_responses))"

text \<open>The introduction, built only when \<open>approach_responses\<close> is not empty.\<close>

definition make_introduction :: "ApproachResponse list \<Rightarrow> pystr" where
  "make_introduction approach_responses =
     (case py_min r_rank approach_responses of
        None \<Rightarrow> []
      | Some best_approach \<Rightarrow>
          r_title best_approach @ u '' - '' @ take 200 (r_content best_approach) @ u ''...'')"

text \<open>The criteria loop on a dictionary: \<open>str(criterion.get(key, "") or "")\<close>.\<close>

definition clean_criterion :: "criterion_dict \<Rightarrow> criterion_out" where
  "clean_criterion criterion =
     \<lparr>id_r = str_or (dict_get (d_id criterion) []) [],
      description_r = str_or (dict_get (d_description criterion) []) [],
      pattern_r = str_or (dict_get (d_pattern criterion) []) []\<rparr>"

definition default_criterion :: criterion_out where
  "default_criterion =
     \<lparr>id_r = u ''defaultCriterion'',
      description_r = u ''The solution must handle the given test cases correctly.'',
      pattern_r = []\<rparr>"

text \<open>The endpoint after \<open>crew.solve_leetcode_problem\<close> has returned \<open>solution_result\<close>.\<close>

definition build_response :: "pystr \<Rightarrow> pystr \<Rightarrow> result_dict \<Rightarrow> response" where
  "build_response problem_description lang solution_result =
     (let approach_responses =
            (if d_approaches solution_result \<noteq> []
             then map to_ApproachResponse (d_approaches solution_result) else []);
          solutions_list =
            (if d_approaches solution_result \<noteq> [] then d_approaches solution_result else []);
          criteria_list =
            (if d_criteria solution_result \<noteq> []
             then map clean_criterion (d_criteria solution_result) else []);
          res = \<lparr>leetcode_problem = problem_description,
                 language = lang,
                 approaches = approach_responses,
                 solution_criteria = Some criteria_list,
                 status = u ''success'',
                 solutions = solutions_list,
                 introduction =
                   (if approach_responses \<noteq> [] then make_introduction approach_responses else []),
                 full_text =
                   (if approach_responses \<noteq> [] then make_full_text lang approach_responses
                    else []),
                 approach_count = length approach_responses\<rparr>
      in if d_status solution_result = u ''error''
         then HTTPException 500 (d_error solution_result)
         else if approaches res = [] then
           ErrorDict (u (''No solution approaches could be generated. '' @
                         ''Please try again or modify your problem description.''))
         else (case solution_criteria res of
                 None \<Rightarrow> Result (res\<lparr>solution_criteria := Some [default_criterion]\<rparr>)
               | Some cs \<Rightarrow> Result res))"

definition generate_leetcode_solution ::
    "world \<Rightarrow> LeetCodeSolutionRequest \<Rightarrow> response \<times> world" where
  "generate_leetcode_solution w request =
     (let problem_description = req_content request;
          lang = next_truthy [programmingLanguage request, programLanguage request,
                              req_language request] (u ''python'')
      in if problem_description = [] \<or> length (py_strip problem_description) < 10
         then (ErrorDict (u ''Problem description is too short or empty.''), w)
         else (case get_leetcode_crew w of
                 Inl failure \<Rightarrow> (failure, w)
               | Inr w1 \<Rightarrow>
                   (build_response problem_description lang
                      (solve_leetcode_problem (kickoff w1 problem_description lang)),
                    w1\<lparr>solve_calls := solve_calls w1 @ [(problem_description, lang)]\<rparr>)))"

text \<open>A request as the server handles it: validated, then passed to the endpoint.\<close>

definition handle_request :: "world \<Rightarrow> LeetCodeSolutionRequest \<Rightarrow> response \<times> world" where
  "handle_request w raw = generate_leetcode_solution w (check_language_field raw)"

text \<open>What a caller can read from a response: its approaches, its criteria and its status
  (a raised exception has none of them).\<close>

definition response_approaches :: "response \<Rightarrow> ApproachResponse list" where
  "response_approaches resp =
     (case resp of Result r \<Rightarrow> approaches r | ErrorDict m \<Rightarrow> [] | HTTPException c d \<Rightarrow> [])"

definition response_criteria :: "response \<Rightarrow> criterion_out list" where
  "response_criteria resp =
     (case resp of
        Result r \<Rightarrow> (case solution_criteria r of None \<Rightarrow> [] | Some cs \<Rightarrow> cs)
      | ErrorDict m \<Rightarrow> []
      | HTTPException c d \<Rightarrow> [])"

definition response_status :: "response \<Rightarrow> pystr option" where
  "response_status resp =
     (case resp of
        Result r \<Rightarrow> Some (status r)
      | ErrorDict m \<Rightarrow> Some (u ''error'')
      | HTTPException c d \<Rightarrow> None)"

section \<open>The older endpoint (test\_new/api.py)\<close>

text \<open>
  An item of a parsed JSON array, as far as the endpoint looks at it: a string, or any other
  value, of which only \<open>str(item)\<close> and its truth value are read.
\<close>

datatype jval = JString pystr | JOther pystr bool

definition py_str :: "jval \<Rightarrow> pystr" where
  "py_str item = (case item of JString s \<Rightarrow> s | JOther t b \<Rightarrow> t)"

definition jtruthy :: "jval \<Rightarrow> bool" where
  "jtruthy item = (case item of JString s \<Rightarrow> s \<noteq> [] | JOther t b \<Rightarrow> b)"

text \<open>
  \<open>json.loads\<close> belongs to Python's library and is a parameter \<open>loads\<close> of the model:
  \<open>None\<close> stands for \<open>JSONDecodeError\<close>. Both calls are on a text that starts with
  \<open>[\<close>, so a value it returns is an array. Code points: \<open>[\<close> is 91, \<open>]\<close> is 93,
  the double quote is 34, the newline is 10.
\<close>

type_synonym json_loads = "pystr \<Rightarrow> jval list option"

text \<open>The text the handler of \<open>JSONDecodeError\<close> passes to \<open>json.loads\<close>, when the indices
  allow it.\<close>

definition json_content :: "pystr \<Rightarrow> pystr option" where
  "json_content criteria_text =
     (let start_idx = py_find criteria_text [91, 34];
          end_idx = py_rfind criteria_text [34, 93]
      in if start_idx \<ge> 0 \<and> end_idx \<ge> 0 \<and> end_idx > start_idx
         then Some (replace_escaped_quotes
                      (py_slice criteria_text (nat start_idx) (nat end_idx + 2)))
         else None)"

text \<open>The handler of \<open>JSONDecodeError\<close> (the embedded-JSON step).\<close>

definition embedded_json_step :: "json_loads \<Rightarrow> pystr \<Rightarrow> jval list" where
  "embedded_json_step loads criteria_text =
     (case json_content criteria_text of
        Some extracted \<Rightarrow>
          (case loads extracted of
             Some criteria_array \<Rightarrow> criteria_array
           | None \<Rightarrow> [JString criteria_text])
      | None \<Rightarrow>
          map (\<lambda>line. JString (py_strip_chars [34] (py_strip line)))
              (filter (\<lambda>line. py_strip line \<noteq> []) (py_split 10 criteria_text)))"

text \<open>The criteria of a \<open>CrewOutput\<close> (second task).\<close>

definition criteria_of_task_output :: "json_loads \<Rightarrow> pystr \<Rightarrow> jval list" where
  "criteria_of_task_output loads criteria_text =
     (if startswith (py_strip criteria_text) [91] \<and> endswith (py_strip criteria_text) [93]
      then (case loads criteria_text of
              Some criteria_array \<Rightarrow> criteria_array
            | None \<Rightarrow> embedded_json_step loads criteria_text)
      else [JString criteria_text])"

text \<open>The criteria of a dictionary result.\<close>

definition criteria_of_dict :: "json_loads \<Rightarrow> pystr \<Rightarrow> jval list" where
  "criteria_of_dict loads criteria_text =
     (if startswith (py_strip criteria_text) [91] \<and> endswith (py_strip criteria_text) [93]
      then (case loads criteria_text of
              Some criteria_array \<Rightarrow> criteria_array
            | None \<Rightarrow> [JString criteria_text])
      else [JString criteria_text])"

text \<open>What \<open>crew_manager.analyze_problem\<close> returned: an object with \<open>tasks_output\<close> (the
  text of each task), a dictionary with the texts of \<open>solution\<close> and \<open>criteria\<close>, or
  anything else.\<close>

datatype crew_result =
    CrewOutput "pystr list"
  | DictResult pystr pystr
  | OtherResult

record CriteriaResponse =
  solution :: pystr
  criteria :: "pystr list"

definition analyze_problem :: "json_loads \<Rightarrow> crew_result \<Rightarrow> CriteriaResponse" where
  "analyze_problem loads res =
     (let no_solution = u ''No solution generated'';
          (solution_text, criteria_array) =
            (case res of
               CrewOutput tasks_output \<Rightarrow>
                 (case tasks_output of
                    [] \<Rightarrow> (no_solution, [])
                  | [t0] \<Rightarrow> (t0, [])
                  | t0 # t1 # ts \<Rightarrow> (t0, criteria_of_task_output loads t1))
             | DictResult sol crit \<Rightarrow> (sol, criteria_of_dict loads crit)
             | OtherResult \<Rightarrow> (no_solution, []));
          criteria_array =
            (if criteria_array = [] then [JString (u ''No criteria could be extracted'')]
             else criteria_array)
      in \<lparr>solution = solution_text,
          criteria = map (\<lambda>item. py_strip (py_str item)) (filter jtruthy criteria_array)\<rparr>)"


section \<open>Concrete runs\<close>

text \<open>The raw text \<open>Here is the result: ["a", "b"] - done\<close>, its dash being the em dash
  U+2014 (8212), and the array text \<open>["a", "b"]\<close> inside it.\<close>

definition array_text :: pystr where
  "array_text = [91, 34, 97, 34, 44, 32, 34, 98, 34, 93]"

definition raw_text :: pystr where
  "raw_text = u ''Here is the result: '' @ array_text @ [32, 8212, 32] @ u ''done''"

text \<open>A \<open>json.loads\<close> that knows the array text only.\<close>

definition loads_array_text :: json_loads where
  "loads_array_text s =
     (if s = array_text then Some [JString (u ''a''), JString (u ''b'')] else None)"

text \<open>A process with an API key and no crew yet, whose agents produce \<open>run\<close> whatever
  they are asked.\<close>

definition world_with :: "crew_run \<Rightarrow> world" where
  "world_with run =
     \<lparr>OPENAI_API_KEY = Some (u ''sk-test''), has_crew = False,
      kickoff = (\<lambda>problem_description lang. run), solve_calls = []\<rparr>"

definition two_sum_request :: LeetCodeSolutionRequest where
  "two_sum_request =
     \<lparr>req_title = u ''Two Sum'',
      req_content = u ''Find two numbers in nums that add up to target.'',
      programmingLanguage = None, programLanguage = None, req_language = None\<rparr>"

definition java_request :: LeetCodeSolutionRequest where
  "java_request =
     \<lparr>req_title = u ''Two Sum'',
      req_content = u ''Find two numbers in nums that add up to target.'',
      programmingLanguage = Some [], programLanguage = Some (u ''java''),
      req_language = Some (u ''go'')\<rparr>"

definition short_request :: LeetCodeSolutionRequest where
  "short_request =
     \<lparr>req_title = u ''Two Sum'', req_content = u ''  two sum?   '',
      programmingLanguage = Some (u ''python''), programLanguage = None,
      req_language = None\<rparr>"

definition approach_ranked :: "int \<Rightarrow> pystr \<Rightarrow> SolutionApproach" where
  "approach_ranked r name =
     \<lparr>title = name, content = u ''Scan the array once.'', rank = r,
      time_complexity = u ''O(n)'', space_complexity = u ''O(n)'', code = u ''pass'',
      edge_cases = [], test_examples = []\<rparr>"

definition criterion_named :: "pystr \<Rightarrow> Criteria" where
  "criterion_named name = \<lparr>id_c = name, description = u ''Uses a hash map.''\<rparr>"

text \<open>The language the request asks for, in the words of the specification: the first
  non-empty field among \<open>programmingLanguage\<close>, \<open>programLanguage\<close> and \<open>language\<close>, and
  \<open>python\<close> when there is none.\<close>

definition chosen_language :: "LeetCodeSolutionRequest \<Rightarrow> pystr" where
  "chosen_language r =
     (if truthy (programmingLanguage r) then dict_get (programmingLanguage r) []
      else if truthy (programLanguage r) then dict_get (programLanguage r) []
      else if truthy (req_language r) then dict_get (req_language r) []
      else u ''python'')"

definition response_language :: "response \<Rightarrow> pystr option" where
  "response_language resp =
     (case resp of
        Result r \<Rightarrow> Some (language r)
      | ErrorDict m \<Rightarrow> None
      | HTTPException c d \<Rightarrow> None)"

definition response_introduction :: "response \<Rightarrow> pystr option" where
  "response_introduction resp =
     (case resp of
        Result r \<Rightarrow> Some (introduction r)
      | ErrorDict m \<Rightarrow> None
      | HTTPException c d \<Rightarrow> None)"

text \<open>The response record that has the field values of an approach, and the response
  criterion that has the id and the description of a criterion (\<open>pattern\<close> is no field of
  \<open>Criteria\<close>, so the response's is empty).\<close>

definition same_fields :: "SolutionApproach \<Rightarrow> ApproachResponse" where
  "same_fields a =
     \<lparr>r_title = title a, r_content = content a, r_rank = rank a,
      r_time_complexity = time_complexity a, r_space_complexity = space_complexity a,
      r_code = code a, r_edge_cases = edge_cases a, r_test_examples = test_examples a\<rparr>"

definition same_criterion :: "Criteria \<Rightarrow> criterion_out" where
  "same_criterion c = \<lparr>id_r = id_c c, description_r = description c, pattern_r = []\<rparr>"

definition three_approaches :: "SolutionApproach list" where
  "three_approaches =
     [approach_ranked 3 (u ''Sorting''), approach_ranked 1 (u ''Hash Map''),
      approach_ranked 2 (u ''Brute Force'')]"

definition six_criteria :: "Criteria list" where
  "six_criteria =
     [criterion_named (u ''c1''), criterion_named (u ''c2''), criterion_named (u ''c3''),
      criterion_named (u ''c4''), criterion_named (u ''c5''), criterion_named (u ''c6'')]"

definition duplicate_criteria :: "Criteria list" where
  "duplicate_criteria = [criterion_named (u ''usesHashMap''), criterion_named (u ''usesHashMap'')]"


section \<open>Auxiliary facts\<close>

lemma status_literals: "u ''success'' \<noteq> u ''error''"
  by (simp add: u_def)

lemma to_response_of_dict: "to_ApproachResponse (approach_to_dict a) = same_fields a"
  by (simp add: to_ApproachResponse_def approach_to_dict_def dict_get_def same_fields_def)

lemma r_rank_of_dict: "r_rank (to_ApproachResponse (approach_to_dict a)) = rank a"
  by (simp add: to_response_of_dict same_fields_def)

lemma clean_of_dict: "clean_criterion (criterion_to_dict c) = same_criterion c"
  by (simp add: clean_criterion_def criterion_to_dict_def dict_get_def str_or_def
        same_criterion_def)

lemma solve_Finished:
  "solve_leetcode_problem (Finished a c) =
     \<lparr>d_approaches = map approach_to_dict (process_approaches a),
      d_criteria = map criterion_to_dict (fst (process_criteria c)),
      d_status = u ''success'', d_error = snd (process_criteria c)\<rparr>"
  by (simp add: solve_leetcode_problem_def to_dict_def)

lemma solve_Raises:
  "solve_leetcode_problem (Raises e) =
     \<lparr>d_approaches = [], d_criteria = [],
      d_status = u ''error'', d_error = u ''Error in LeetCodeCrew: '' @ e\<rparr>"
  by (simp add: solve_leetcode_problem_def to_dict_def)

lemma build_Raises:
  "build_response pd lang (solve_leetcode_problem (Raises e)) =
     HTTPException 500 (u ''Error in LeetCodeCrew: '' @ e)"
  by (simp add: build_response_def solve_Raises Let_def)

lemma build_Finished_empty:
  "process_approaches a = [] \<Longrightarrow>
   build_response pd lang (solve_leetcode_problem (Finished a c)) =
     ErrorDict (u (''No solution approaches could be generated. '' @
                   ''Please try again or modify your problem description.''))"
  by (simp add: build_response_def solve_Finished status_literals Let_def)

lemma response_approaches_Finished:
  "response_approaches (build_response pd lang (solve_leetcode_problem (Finished a c))) =
     map (\<lambda>x. to_ApproachResponse (approach_to_dict x)) (process_approaches a)"
  by (simp add: build_response_def solve_Finished status_literals response_approaches_def Let_def)

lemma response_criteria_Finished:
  "process_approaches a \<noteq> [] \<Longrightarrow>
   response_criteria (build_response pd lang (solve_leetcode_problem (Finished a c))) =
     map (\<lambda>x. clean_criterion (criterion_to_dict x)) (fst (process_criteria c))"
  by (simp add: build_response_def solve_Finished status_literals response_criteria_def Let_def)

lemma response_status_Finished:
  "response_status (build_response pd lang (solve_leetcode_problem (Finished a c))) =
     Some (if process_approaches a = [] then u ''error'' else u ''success'')"
  by (simp add: build_response_def solve_Finished status_literals response_status_def Let_def)

text \<open>A stable sort by key has one possible result, so any stable \<open>sorted\<close> agrees with
  \<open>py_sorted\<close>.\<close>

lemma py_sorted_unique:
  assumes "mset ys = mset xs"
      and "\<And>x. x \<in> set ys \<Longrightarrow> filter (\<lambda>y. k x = k y) ys = filter (\<lambda>y. k x = k y) xs"
      and "sorted (map k ys)"
  shows "py_sorted k xs = ys"
  unfolding py_sorted_def using assms by (rule properties_for_sort_key)

lemma sort_key_Nil_iff: "sort_key f xs = [] \<longleftrightarrow> xs = []"
  by (metis length_0_conv length_sort)

lemma process_approaches_empty_iff: "process_approaches a = [] \<longleftrightarrow> a = Pydantic []"
  by (cases a) (simp_all add: process_approaches_def py_sorted_def sort_key_Nil_iff)

lemma generate_valid:
  assumes "req_content r \<noteq> []" and "\<not> length (py_strip (req_content r)) < 10"
      and "has_crew w \<or> truthy (OPENAI_API_KEY w)"
  shows "fst (generate_leetcode_solution w r) =
           build_response (req_content r)
             (next_truthy [programmingLanguage r, programLanguage r, req_language r] (u ''python''))
             (solve_leetcode_problem (kickoff w (req_content r)
                (next_truthy [programmingLanguage r, programLanguage r, req_language r]
                   (u ''python''))))"
    and "solve_calls (snd (generate_leetcode_solution w r)) =
           solve_calls w @ [(req_content r,
             next_truthy [programmingLanguage r, programLanguage r, req_language r] (u ''python''))]"
  using assms by (auto simp: generate_leetcode_solution_def get_leetcode_crew_def Let_def)

lemma checked_content: "req_content (check_language_field r) = req_content r"
  by (simp add: check_language_field_def)

lemma checked_language:
  "next_truthy [programmingLanguage (check_language_field r),
                programLanguage (check_language_field r),
                req_language (check_language_field r)] (u ''python'') = chosen_language r"
  by (cases "programmingLanguage r"; cases "programLanguage r"; cases "req_language r")
     (auto simp: check_language_field_def chosen_language_def truthy_def dict_get_def u_def)

lemma unchecked_language:
  "next_truthy [programmingLanguage r, programLanguage r, req_language r] (u ''python'')
     = chosen_language r"
  by (cases "programmingLanguage r"; cases "programLanguage r"; cases "req_language r")
     (auto simp: chosen_language_def truthy_def dict_get_def)

lemma handle_valid:
  assumes "req_content r \<noteq> []" and "\<not> length (py_strip (req_content r)) < 10"
      and "has_crew w \<or> truthy (OPENAI_API_KEY w)"
  shows "fst (handle_request w r) =
           build_response (req_content r) (chosen_language r)
             (solve_leetcode_problem (kickoff w (req_content r) (chosen_language r)))"
    and "solve_calls (snd (handle_request w r)) =
           solve_calls w @ [(req_content r, chosen_language r)]"
  using generate_valid [of "check_language_field r" w] assms
  by (simp_all add: handle_request_def checked_content checked_language)

lemma two_sum_valid:
  "req_content two_sum_request \<noteq> []
   \<and> \<not> length (py_strip (req_content two_sum_request)) < 10"
  by (simp add: two_sum_request_def u_def py_strip_def py_isspace_def)

lemma world_with_ready: "has_crew (world_with run) \<or> truthy (OPENAI_API_KEY (world_with run))"
  by (simp add: world_with_def truthy_def u_def)

lemma handle_two_sum:
  "fst (handle_request (world_with run) two_sum_request) =
     build_response (req_content two_sum_request) (u ''python'') (solve_leetcode_problem run)"
  using handle_valid(1) [of two_sum_request "world_with run"] two_sum_valid world_with_ready
  by (simp add: world_with_def chosen_language_def two_sum_request_def truthy_def)


lemma generate_invalid:
  "req_content r = [] \<or> length (py_strip (req_content r)) < 10 \<Longrightarrow>
   generate_leetcode_solution w r =
     (ErrorDict (u ''Problem description is too short or empty.''), w)"
  by (auto simp: generate_leetcode_solution_def Let_def)

lemma generate_no_crew:
  "req_content r \<noteq> [] \<Longrightarrow> \<not> length (py_strip (req_content r)) < 10 \<Longrightarrow>
   \<not> has_crew w \<Longrightarrow> \<not> truthy (OPENAI_API_KEY w) \<Longrightarrow>
   generate_leetcode_solution w r =
     (HTTPException 500
        (u ''OpenAI API key not found. Please set the OPENAI_API_KEY environment variable.''), w)"
  by (simp add: generate_leetcode_solution_def get_leetcode_crew_def Let_def)

lemma response_language_build:
  "response_language (build_response pd lang sr) = None
   \<or> response_language (build_response pd lang sr) = Some lang"
  by (simp add: build_response_def response_language_def Let_def)

lemma response_language_Finished:
  "process_approaches a \<noteq> [] \<Longrightarrow>
   response_language (build_response pd lang (solve_leetcode_problem (Finished a c))) = Some lang"
  by (simp add: build_response_def solve_Finished status_literals response_language_def Let_def)

lemma short_request_invalid:
  "length (py_strip (req_content short_request)) < 10"
  by (simp add: short_request_def u_def py_strip_def py_isspace_def)

lemma java_request_valid:
  "req_content java_request \<noteq> [] \<and> 10 \<le> length (py_strip (req_content java_request))"
  by (simp add: java_request_def u_def py_strip_def py_isspace_def)

lemma java_request_language: "chosen_language java_request = u ''java''"
  by (simp add: chosen_language_def java_request_def truthy_def dict_get_def u_def)

lemma process_approaches_Pydantic: "process_approaches (Pydantic xs) = sort_key rank xs"
  by (simp add: process_approaches_def py_sorted_def)

lemma process_criteria_Pydantic: "fst (process_criteria (Pydantic cs)) = cs"
  by (simp add: process_criteria_def)

lemma response_approaches_same:
  "response_approaches (build_response pd lang (solve_leetcode_problem (Finished a c))) =
     map same_fields (process_approaches a)"
  by (simp add: response_approaches_Finished to_response_of_dict)

lemma response_criteria_same:
  "process_approaches a \<noteq> [] \<Longrightarrow>
   response_criteria (build_response pd lang (solve_leetcode_problem (Finished a c))) =
     map same_criterion (fst (process_criteria c))"
  by (simp add: response_criteria_Finished clean_of_dict)

lemma id_r_same: "map id_r (map same_criterion cs) = map id_c cs"
  by (simp add: same_criterion_def comp_def)

lemma three_approaches_length: "three_approaches \<noteq> [] \<and> length three_approaches = 3"
  by (simp add: three_approaches_def)

lemma six_criteria_length: "length six_criteria = 6"
  by (simp add: six_criteria_def)

lemma sort_key_two: "sort_key f [a, b] = (if f a \<le> f b then [a, b] else [b, a])"
  by simp

lemma min_from_mem: "min_from k b xs \<in> set (b # xs)"
proof (induction xs arbitrary: b)
  case Nil
  show ?case by simp
next
  case (Cons x xs)
  from Cons.IH [of "if k x < k b then x else b"] show ?case
    by (auto split: if_splits)
qed

lemma min_from_le_best: "k (min_from k b xs) \<le> k b"
proof (induction xs arbitrary: b)
  case Nil
  show ?case by simp
next
  case (Cons x xs)
  from Cons.IH [of "if k x < k b then x else b"] show ?case
    by (auto split: if_splits)
qed

lemma min_from_le: "x \<in> set (b # xs) \<Longrightarrow> k (min_from k b xs) \<le> k x"
proof (induction xs arbitrary: b)
  case Nil
  then show ?case by simp
next
  case (Cons y ys)
  let ?b = "if k y < k b then y else b"
  have le: "k (min_from k ?b ys) \<le> k ?b"
    by (rule min_from_le_best)
  show ?case
  proof (cases "x \<in> set ys")
    case True
    then have "x \<in> set (?b # ys)" by simp
    from Cons.IH [OF this] show ?thesis by simp
  next
    case False
    with Cons.prems have "x = b \<or> x = y" by auto
    with le show ?thesis by (auto split: if_splits)
  qed
qed

lemma min_from_sorted: "sorted (map k (b # xs)) \<Longrightarrow> min_from k b xs = b"
proof (induction xs)
  case Nil
  show ?case by simp
next
  case (Cons x xs)
  then have "\<not> k x < k b" and "sorted (map k (b # xs))"
    by auto
  with Cons.IH show ?case by simp
qed

lemma py_min_sorted:
  "xs \<noteq> [] \<Longrightarrow> sorted (map k xs) \<Longrightarrow> py_min k xs = Some (hd xs)"
  by (cases xs) (simp_all add: py_min_def min_from_sorted del: sorted_wrt.simps)

lemma build_response_introduction:
  assumes "response_approaches (build_response pd lang sr) \<noteq> []"
  shows "response_approaches (build_response pd lang sr)
           = map to_ApproachResponse (d_approaches sr)"
    and "response_introduction (build_response pd lang sr)
           = Some (make_introduction (response_approaches (build_response pd lang sr)))"
  using assms
  by (auto simp: build_response_def response_approaches_def response_introduction_def Let_def
           split: if_splits)

lemma hash_map_first:
  "process_approaches (Pydantic three_approaches)
     = [approach_ranked 1 (u ''Hash Map''), approach_ranked 2 (u ''Brute Force''),
        approach_ranked 3 (u ''Sorting'')]"
  by (simp add: process_approaches_Pydantic three_approaches_def approach_ranked_def)

lemma process_criteria_NoAttr: "fst (process_criteria NoPydanticAttr) = [fallback_criterion]"
  by (simp add: process_criteria_def)

lemma process_approaches_fallback:
  "process_approaches NoPydanticAttr = [fallback_approach]"
  "process_approaches PydanticNone = [fallback_approach]"
  by (simp_all add: process_approaches_def)

lemma two_sum_valid_le:
  "req_content two_sum_request \<noteq> [] \<and> 10 \<le> length (py_strip (req_content two_sum_request))"
  using two_sum_valid by (simp add: not_less)

lemma raw_text_strip: "py_strip raw_text = raw_text"
  by (simp add: raw_text_def array_text_def u_def py_strip_def py_isspace_def)

lemma raw_text_gate: "\<not> startswith raw_text [91]"
  by (simp add: raw_text_def array_text_def u_def startswith_def)

lemma raw_text_nonempty: "raw_text \<noteq> []"
  by (simp add: raw_text_def array_text_def u_def)

lemma raw_text_find: "py_find raw_text [91, 34] = 20"
  by (simp add: raw_text_def array_text_def u_def py_find_def)

lemma raw_text_rfind: "py_rfind raw_text [34, 93] = 28"
  by (simp add: raw_text_def array_text_def u_def py_rfind_def)

lemma raw_text_slice: "replace_escaped_quotes (py_slice raw_text 20 30) = array_text"
  by (simp add: raw_text_def array_text_def u_def py_slice_def)

lemma raw_text_json_content: "json_content raw_text = Some array_text"
  by (simp add: json_content_def raw_text_find raw_text_rfind raw_text_slice)

lemma raw_text_criteria:
  "criteria_of_task_output loads raw_text = [JString raw_text]"
  "criteria_of_dict loads raw_text = [JString raw_text]"
  by (simp_all add: criteria_of_task_output_def criteria_of_dict_def raw_text_strip raw_text_gate)

section \<open>Properties of the pipeline\<close>

text \<open>
  C4. The approaches the pipeline puts out are sorted by rank, non-decreasing, and approaches
  of equal rank keep their original relative order: for every rank \<open>k\<close>, the approaches of
  rank \<open>k\<close> appear in the output in the order they had in the parsed list. This holds for
  the list the crew returns (a permutation of the parsed list) and for the list of the
  response.
\<close>

theorem rank_ordering_stable:
  "sorted (map rank (process_approaches (Pydantic xs)))
   \<and> filter (\<lambda>a. rank a = k) (process_approaches (Pydantic xs)) = filter (\<lambda>a. rank a = k) xs
   \<and> mset (process_approaches (Pydantic xs)) = mset xs
   \<and> sorted (map r_rank (response_approaches
        (build_response pd lang (solve_leetcode_problem (Finished (Pydantic xs) c)))))
   \<and> filter (\<lambda>a. r_rank a = k) (response_approaches
        (build_response pd lang (solve_leetcode_problem (Finished (Pydantic xs) c))))
     = map (\<lambda>x. to_ApproachResponse (approach_to_dict x)) (filter (\<lambda>a. rank a = k) xs)"
proof -
  have p: "process_approaches (Pydantic xs) = sort_key rank xs"
    by (simp add: process_approaches_def py_sorted_def)
  have s: "sorted (map rank (sort_key rank xs))"
    by (rule sorted_sort_key)
  have f: "filter (\<lambda>a. rank a = k) (sort_key rank xs) = filter (\<lambda>a. rank a = k) xs"
    by (rule sort_key_stable)
  have m: "map r_rank (map (\<lambda>x. to_ApproachResponse (approach_to_dict x)) (sort_key rank xs))
           = map rank (sort_key rank xs)"
    by (simp add: r_rank_of_dict comp_def)
  have g: "filter (\<lambda>a. r_rank a = k)
             (map (\<lambda>x. to_ApproachResponse (approach_to_dict x)) (sort_key rank xs))
           = map (\<lambda>x. to_ApproachResponse (approach_to_dict x))
               (filter (\<lambda>a. rank a = k) (sort_key rank xs))"
    by (simp add: filter_map comp_def r_rank_of_dict)
  show ?thesis
    unfolding response_approaches_Finished p m g f
    using s by simp
qed

text \<open>
  C6. A request whose problem text is empty, or shorter than 10 characters once stripped, is
  answered with the error dictionary (status \<open>error\<close> and a message) and nothing else
  happens: the process state is returned as it was, so no crew is fetched or built and
  \<open>crew.solve_leetcode_problem\<close> is not called. This holds whatever the agents would
  produce, for the validated request and for the endpoint alone.
\<close>

theorem invalid_input_rejected:
  assumes "req_content r = [] \<or> length (py_strip (req_content r)) < 10"
  shows "fst (handle_request w r) = ErrorDict (u ''Problem description is too short or empty.'')
         \<and> response_status (fst (handle_request w r)) = Some (u ''error'')
         \<and> snd (handle_request w r) = w
         \<and> solve_calls (snd (handle_request w r)) = solve_calls w
         \<and> fst (generate_leetcode_solution w r)
             = ErrorDict (u ''Problem description is too short or empty.'')
         \<and> snd (generate_leetcode_solution w r) = w"
proof -
  have "req_content (check_language_field r) = []
        \<or> length (py_strip (req_content (check_language_field r))) < 10"
    using assms by (simp add: checked_content)
  then have h: "handle_request w r =
      (ErrorDict (u ''Problem description is too short or empty.''), w)"
    unfolding handle_request_def by (rule generate_invalid)
  have g: "generate_leetcode_solution w r =
      (ErrorDict (u ''Problem description is too short or empty.''), w)"
    using assms by (rule generate_invalid)
  show ?thesis
    by (simp add: h g response_status_def)
qed

text \<open>The request with the text \<open>two sum?\<close> between blanks is rejected and no call is made.\<close>

theorem invalid_input_rejected_witness:
  "(req_content short_request = [] \<or> length (py_strip (req_content short_request)) < 10)
   \<and> fst (handle_request (world_with (Finished NoPydanticAttr NoPydanticAttr)) short_request)
       = ErrorDict (u ''Problem description is too short or empty.'')
   \<and> solve_calls
        (snd (handle_request (world_with (Finished NoPydanticAttr NoPydanticAttr)) short_request))
       = []"
  using invalid_input_rejected
          [of short_request "world_with (Finished NoPydanticAttr NoPydanticAttr)"]
        short_request_invalid
  by (simp add: world_with_def)

text \<open>
  C10. The language given to the pipeline is the first non-empty field among
  \<open>programmingLanguage\<close>, \<open>programLanguage\<close> and \<open>language\<close>, and \<open>python\<close> when there is
  none (\<open>chosen_language\<close>): every call the endpoint makes has it as its language, one such
  call is made when the text is long enough and a crew is available, and a response that has
  a \<open>language\<close> field has this language in it, as it has whenever the crew finishes with
  approaches. The endpoint's own expression gives the same language without the validator.
\<close>

theorem language_choice:
  "(solve_calls (snd (handle_request w r)) = solve_calls w
      \<or> solve_calls (snd (handle_request w r))
           = solve_calls w @ [(req_content r, chosen_language r)])
   \<and> (response_language (fst (handle_request w r)) = None
      \<or> response_language (fst (handle_request w r)) = Some (chosen_language r))
   \<and> (req_content r \<noteq> [] \<and> 10 \<le> length (py_strip (req_content r))
        \<and> (has_crew w \<or> truthy (OPENAI_API_KEY w))
      \<longrightarrow> solve_calls (snd (handle_request w r))
            = solve_calls w @ [(req_content r, chosen_language r)]
          \<and> (\<forall>a c. kickoff w (req_content r) (chosen_language r) = Finished a c
                    \<and> a \<noteq> Pydantic []
                \<longrightarrow> response_language (fst (handle_request w r)) = Some (chosen_language r)))
   \<and> next_truthy [programmingLanguage r, programLanguage r, req_language r] (u ''python'')
       = chosen_language r"
proof -
  let ?invalid = "req_content r = [] \<or> length (py_strip (req_content r)) < 10"
  let ?ready = "has_crew w \<or> truthy (OPENAI_API_KEY w)"
  have A: "?invalid \<Longrightarrow> handle_request w r =
      (ErrorDict (u ''Problem description is too short or empty.''), w)"
    unfolding handle_request_def
    by (rule generate_invalid) (simp add: checked_content)
  have B: "\<not> ?invalid \<Longrightarrow> \<not> ?ready \<Longrightarrow> handle_request w r =
      (HTTPException 500
        (u ''OpenAI API key not found. Please set the OPENAI_API_KEY environment variable.''), w)"
    unfolding handle_request_def
    by (rule generate_no_crew) (simp_all add: checked_content)
  have C1: "\<not> ?invalid \<Longrightarrow> ?ready \<Longrightarrow> fst (handle_request w r) =
           build_response (req_content r) (chosen_language r)
             (solve_leetcode_problem (kickoff w (req_content r) (chosen_language r)))"
    by (rule handle_valid(1)) simp_all
  have C2: "\<not> ?invalid \<Longrightarrow> ?ready \<Longrightarrow> solve_calls (snd (handle_request w r)) =
           solve_calls w @ [(req_content r, chosen_language r)]"
    by (rule handle_valid(2)) simp_all
  have calls: "solve_calls (snd (handle_request w r)) = solve_calls w
      \<or> solve_calls (snd (handle_request w r))
           = solve_calls w @ [(req_content r, chosen_language r)]"
    using A B C2 by (cases ?invalid; cases ?ready) simp_all
  have lang: "response_language (fst (handle_request w r)) = None
      \<or> response_language (fst (handle_request w r)) = Some (chosen_language r)"
  proof (cases ?invalid)
    case True
    then show ?thesis using A by (simp add: response_language_def)
  next
    case False
    show ?thesis
    proof (cases ?ready)
      case True
      show ?thesis
        unfolding C1 [OF False True] by (rule response_language_build)
    next
      case False
      then show ?thesis using B [OF \<open>\<not> ?invalid\<close>] by (simp add: response_language_def)
    qed
  qed
  have echo: "\<not> ?invalid \<Longrightarrow> ?ready \<Longrightarrow>
      kickoff w (req_content r) (chosen_language r) = Finished a c \<Longrightarrow> a \<noteq> Pydantic [] \<Longrightarrow>
      response_language (fst (handle_request w r)) = Some (chosen_language r)" for a c
    by (simp add: C1 response_language_Finished process_approaches_empty_iff)
  show ?thesis
    using calls lang C2 echo unchecked_language [of r]
    by (auto simp: not_less)
qed

text \<open>A request with an empty \<open>programmingLanguage\<close>, \<open>programLanguage = java\<close> and
  \<open>language = go\<close> runs the crew on \<open>java\<close> and answers with \<open>java\<close>.\<close>

theorem language_choice_witness:
  "req_content java_request \<noteq> [] \<and> 10 \<le> length (py_strip (req_content java_request))
   \<and> (has_crew (world_with (Finished NoPydanticAttr NoPydanticAttr))
      \<or> truthy (OPENAI_API_KEY (world_with (Finished NoPydanticAttr NoPydanticAttr))))
   \<and> solve_calls (snd (handle_request (world_with (Finished NoPydanticAttr NoPydanticAttr))
                        java_request))
      = [(req_content java_request, u ''java'')]
   \<and> response_language (fst (handle_request (world_with (Finished NoPydanticAttr NoPydanticAttr))
                               java_request))
      = Some (u ''java'')"
  using language_choice [of "world_with (Finished NoPydanticAttr NoPydanticAttr)" java_request]
        java_request_valid world_with_ready [of "Finished NoPydanticAttr NoPydanticAttr"]
        java_request_language
  by (simp add: world_with_def)

text \<open>
  C1, as stated, fails: the response need not hold approaches and criteria. When the crew
  raises, the endpoint raises \<open>HTTPException(500)\<close> with the crew's error, and no response
  with lists exists.
\<close>

theorem fallback_never_empty_counterexample:
  "fst (handle_request (world_with (Raises (u ''timeout''))) two_sum_request)
     = HTTPException 500 (u ''Error in LeetCodeCrew: '' @ u ''timeout'')
   \<and> response_approaches
        (fst (handle_request (world_with (Raises (u ''timeout''))) two_sum_request)) = []
   \<and> response_criteria
        (fst (handle_request (world_with (Raises (u ''timeout''))) two_sum_request)) = []"
  by (simp add: handle_two_sum build_Raises response_approaches_def response_criteria_def)

text \<open>
  C1, amended. For a request with a long enough text and an available crew: when the crew
  finishes and its approaches are not the empty list, the response has status
  \<open>success\<close> and a non-empty approaches list, which is the one fallback approach when the
  task output has no structured approaches; its criteria are the one fallback criterion when
  the criteria output has no \<open>pydantic\<close> attribute, and the generator's criteria when it
  gave at least one. The endpoint substitutes nothing itself: with an empty approaches list
  it returns the error dictionary, and when the crew raises it raises
  \<open>HTTPException(500)\<close>.
\<close>

theorem response_lists:
  assumes "req_content r \<noteq> []" and "10 \<le> length (py_strip (req_content r))"
      and "has_crew w \<or> truthy (OPENAI_API_KEY w)"
  shows "(\<forall>a c. kickoff w (req_content r) (chosen_language r) = Finished a c \<and> a \<noteq> Pydantic []
            \<longrightarrow> response_status (fst (handle_request w r)) = Some (u ''success'')
              \<and> response_approaches (fst (handle_request w r))
                  = map same_fields (process_approaches a)
              \<and> response_approaches (fst (handle_request w r)) \<noteq> []
              \<and> (a = NoPydanticAttr \<or> a = PydanticNone
                   \<longrightarrow> response_approaches (fst (handle_request w r))
                       = [same_fields fallback_approach])
              \<and> (c = NoPydanticAttr
                   \<longrightarrow> response_criteria (fst (handle_request w r))
                       = [same_criterion fallback_criterion])
              \<and> (\<forall>cs. c = Pydantic cs \<and> cs \<noteq> []
                   \<longrightarrow> response_criteria (fst (handle_request w r)) = map same_criterion cs
                     \<and> response_criteria (fst (handle_request w r)) \<noteq> []))
         \<and> (\<forall>c. kickoff w (req_content r) (chosen_language r) = Finished (Pydantic []) c
            \<longrightarrow> fst (handle_request w r)
                = ErrorDict (u (''No solution approaches could be generated. '' @
                                ''Please try again or modify your problem description.'')))
         \<and> (\<forall>e. kickoff w (req_content r) (chosen_language r) = Raises e
            \<longrightarrow> fst (handle_request w r)
                = HTTPException 500 (u ''Error in LeetCodeCrew: '' @ e))"
proof -
  have H: "fst (handle_request w r) =
           build_response (req_content r) (chosen_language r)
             (solve_leetcode_problem (kickoff w (req_content r) (chosen_language r)))"
    using assms by (intro handle_valid(1)) simp_all
  have ok: "response_status (fst (handle_request w r)) = Some (u ''success'')
            \<and> response_approaches (fst (handle_request w r))
                = map same_fields (process_approaches a)
            \<and> response_approaches (fst (handle_request w r)) \<noteq> []
            \<and> (a = NoPydanticAttr \<or> a = PydanticNone
                 \<longrightarrow> response_approaches (fst (handle_request w r))
                     = [same_fields fallback_approach])
            \<and> (c = NoPydanticAttr
                 \<longrightarrow> response_criteria (fst (handle_request w r))
                     = [same_criterion fallback_criterion])
            \<and> (\<forall>cs. c = Pydantic cs \<and> cs \<noteq> []
                 \<longrightarrow> response_criteria (fst (handle_request w r)) = map same_criterion cs
                   \<and> response_criteria (fst (handle_request w r)) \<noteq> [])"
    if k: "kickoff w (req_content r) (chosen_language r) = Finished a c"
      and a: "a \<noteq> Pydantic []" for a c
  proof -
    have ne: "process_approaches a \<noteq> []"
      using a by (simp add: process_approaches_empty_iff)
    have 1: "response_status (fst (handle_request w r)) = Some (u ''success'')"
      using ne by (simp add: H k response_status_Finished)
    have 2: "response_approaches (fst (handle_request w r))
               = map same_fields (process_approaches a)"
      by (simp add: H k response_approaches_same)
    have 3: "response_criteria (fst (handle_request w r))
               = map same_criterion (fst (process_criteria c))"
      using ne by (simp add: H k response_criteria_same)
    show ?thesis
      using ne
      by (auto simp: 1 2 3 process_approaches_fallback process_criteria_NoAttr
            process_criteria_Pydantic)
  qed
  have empty: "fst (handle_request w r)
                = ErrorDict (u (''No solution approaches could be generated. '' @
                                ''Please try again or modify your problem description.''))"
    if "kickoff w (req_content r) (chosen_language r) = Finished (Pydantic []) c" for c
    using that by (simp add: H build_Finished_empty process_approaches_empty_iff)
  have raises: "fst (handle_request w r) = HTTPException 500 (u ''Error in LeetCodeCrew: '' @ e)"
    if "kickoff w (req_content r) (chosen_language r) = Raises e" for e
    using that by (simp add: H build_Raises)
  from ok empty raises show ?thesis
    by blast
qed

text \<open>
  A run whose approaches model is \<open>None\<close> and whose criteria output has no \<open>pydantic\<close>
  attribute answers with the fallback approach and the fallback criterion.
\<close>

theorem response_lists_witness:
  "req_content two_sum_request \<noteq> []
   \<and> 10 \<le> length (py_strip (req_content two_sum_request))
   \<and> (has_crew (world_with (Finished PydanticNone NoPydanticAttr))
        \<or> truthy (OPENAI_API_KEY (world_with (Finished PydanticNone NoPydanticAttr))))
   \<and> response_status
        (fst (handle_request (world_with (Finished PydanticNone NoPydanticAttr)) two_sum_request))
       = Some (u ''success'')
   \<and> response_approaches
        (fst (handle_request (world_with (Finished PydanticNone NoPydanticAttr)) two_sum_request))
       = [same_fields fallback_approach]
   \<and> response_criteria
        (fst (handle_request (world_with (Finished PydanticNone NoPydanticAttr)) two_sum_request))
       = [same_criterion fallback_criterion]"
proof -
  let ?w = "world_with (Finished PydanticNone NoPydanticAttr)"
  have k: "kickoff ?w (req_content two_sum_request) (chosen_language two_sum_request)
             = Finished PydanticNone NoPydanticAttr"
    by (simp add: world_with_def)
  have v1: "req_content two_sum_request \<noteq> []"
    and v2: "10 \<le> length (py_strip (req_content two_sum_request))"
    using two_sum_valid_le by simp_all
  have rdy: "has_crew ?w \<or> truthy (OPENAI_API_KEY ?w)"
    by (rule world_with_ready)
  from response_lists [OF v1 v2 rdy] k v1 v2 rdy show ?thesis
    by auto
qed

text \<open>
  C2, as stated, fails: the criteria stage produced six criteria and the coordinator reports
  \<open>success\<close>, yet the endpoint's status is \<open>error\<close>, because the approaches list is
  empty.
\<close>

theorem status_counterexample:
  "d_criteria (solve_leetcode_problem (Finished (Pydantic []) (Pydantic six_criteria))) \<noteq> []
   \<and> d_status (solve_leetcode_problem (Finished (Pydantic []) (Pydantic six_criteria)))
       = u ''success''
   \<and> response_status (fst (handle_request
        (world_with (Finished (Pydantic []) (Pydantic six_criteria))) two_sum_request))
       = Some (u ''error'')"
proof -
  have d: "d_criteria (solve_leetcode_problem (Finished (Pydantic []) (Pydantic six_criteria)))
             \<noteq> []
           \<and> d_status (solve_leetcode_problem (Finished (Pydantic []) (Pydantic six_criteria)))
               = u ''success''"
    by (simp add: solve_Finished process_criteria_Pydantic six_criteria_def)
  have r: "response_status (fst (handle_request
        (world_with (Finished (Pydantic []) (Pydantic six_criteria))) two_sum_request))
       = Some (u ''error'')"
    by (simp add: handle_two_sum response_status_Finished process_approaches_Pydantic)
  from d r show ?thesis by blast
qed

text \<open>
  C2, amended. Whenever \<open>kickoff\<close> returns, the coordinator reports \<open>success\<close>; it reports
  \<open>error\<close> when the crew raises, and then both lists are empty. An approaches output
  without the \<open>pydantic\<close> attribute, or with a \<open>None\<close> model, is replaced by the fallback
  approach; whatever the approaches stage gave, the criteria stage is processed: an output
  without the \<open>pydantic\<close> attribute is replaced by the fallback criterion and a model's
  criteria are taken as they are. The endpoint reports \<open>success\<close> when the coordinator does
  and the approaches list is not empty, \<open>error\<close> when that list is empty, and raises
  \<open>HTTPException(500)\<close> when the coordinator reports \<open>error\<close>.
\<close>

theorem coordinator_status:
  "d_status (solve_leetcode_problem (Finished a c)) = u ''success''
   \<and> d_status (solve_leetcode_problem (Raises e)) = u ''error''
   \<and> d_approaches (solve_leetcode_problem (Raises e)) = []
   \<and> d_criteria (solve_leetcode_problem (Raises e)) = []
   \<and> d_approaches (solve_leetcode_problem (Finished NoPydanticAttr c))
       = [approach_to_dict fallback_approach]
   \<and> d_approaches (solve_leetcode_problem (Finished PydanticNone c))
       = [approach_to_dict fallback_approach]
   \<and> d_criteria (solve_leetcode_problem (Finished a NoPydanticAttr))
       = [criterion_to_dict fallback_criterion]
   \<and> d_criteria (solve_leetcode_problem (Finished a (Pydantic cs))) = map criterion_to_dict cs
   \<and> response_status (build_response pd lang (solve_leetcode_problem (Finished a c)))
       = Some (if a = Pydantic [] then u ''error'' else u ''success'')
   \<and> build_response pd lang (solve_leetcode_problem (Raises e))
       = HTTPException 500 (u ''Error in LeetCodeCrew: '' @ e)"
proof -
  have d: "d_status (solve_leetcode_problem (Finished a c)) = u ''success''
   \<and> d_status (solve_leetcode_problem (Raises e)) = u ''error''
   \<and> d_approaches (solve_leetcode_problem (Raises e)) = []
   \<and> d_criteria (solve_leetcode_problem (Raises e)) = []
   \<and> d_approaches (solve_leetcode_problem (Finished NoPydanticAttr c))
       = [approach_to_dict fallback_approach]
   \<and> d_approaches (solve_leetcode_problem (Finished PydanticNone c))
       = [approach_to_dict fallback_approach]
   \<and> d_criteria (solve_leetcode_problem (Finished a NoPydanticAttr))
       = [criterion_to_dict fallback_criterion]
   \<and> d_criteria (solve_leetcode_problem (Finished a (Pydantic cs))) = map criterion_to_dict cs"
    by (simp add: solve_Finished solve_Raises process_approaches_fallback
          process_criteria_NoAttr process_criteria_Pydantic)
  have r: "response_status (build_response pd lang (solve_leetcode_problem (Finished a c)))
       = Some (if a = Pydantic [] then u ''error'' else u ''success'')"
    by (simp add: response_status_Finished process_approaches_empty_iff)
  have h: "build_response pd lang (solve_leetcode_problem (Raises e))
       = HTTPException 500 (u ''Error in LeetCodeCrew: '' @ e)"
    by (rule build_Raises)
  from d r h show ?thesis by blast
qed

text \<open>
  C3, as stated, fails: three approaches and six criteria all reach the response.
\<close>

theorem cap_counterexample:
  "length three_approaches = 3
   \<and> length six_criteria = 6
   \<and> length (response_approaches (fst (handle_request
        (world_with (Finished (Pydantic three_approaches) (Pydantic six_criteria)))
        two_sum_request))) = 3
   \<and> length (response_criteria (fst (handle_request
        (world_with (Finished (Pydantic three_approaches) (Pydantic six_criteria)))
        two_sum_request))) = 6"
  by (simp add: handle_two_sum response_approaches_same response_criteria_same
        process_approaches_Pydantic process_criteria_Pydantic sort_key_Nil_iff
        three_approaches_length six_criteria_length)

text \<open>
  C3, amended. The pipeline enforces no cap. For every candidate approaches list the
  response holds as many approaches as the list, the same records with the same field
  values; and, when that list is not empty, the response holds every criterion of the
  candidate criteria list, in the original order.
\<close>

theorem no_cap:
  "length (response_approaches
      (build_response pd lang (solve_leetcode_problem (Finished (Pydantic xs) c)))) = length xs
   \<and> mset (response_approaches
      (build_response pd lang (solve_leetcode_problem (Finished (Pydantic xs) c))))
       = mset (map same_fields xs)
   \<and> (xs \<noteq> [] \<longrightarrow>
        response_criteria
          (build_response pd lang (solve_leetcode_problem (Finished (Pydantic xs) (Pydantic cs))))
        = map same_criterion cs)"
proof -
  have m: "mset (map same_fields (sort_key rank xs)) = mset (map same_fields xs)"
    by simp
  show ?thesis
    by (simp add: response_approaches_same response_criteria_same process_approaches_Pydantic
          process_criteria_Pydantic sort_key_Nil_iff m del: mset_map)
qed

text \<open>
  Three approaches and six criteria: the response has three approaches and the six criteria.
\<close>

theorem no_cap_witness:
  "three_approaches \<noteq> []
   \<and> length (response_approaches (build_response (u ''p'') (u ''python'')
        (solve_leetcode_problem (Finished (Pydantic three_approaches) (Pydantic six_criteria)))))
      = 3
   \<and> response_criteria (build_response (u ''p'') (u ''python'')
        (solve_leetcode_problem (Finished (Pydantic three_approaches) (Pydantic six_criteria))))
      = map same_criterion six_criteria"
  using no_cap [of "u ''p''" "u ''python''" three_approaches "Pydantic six_criteria" six_criteria]
        three_approaches_length
  by simp

text \<open>
  C5, as stated, fails: two criteria with the id \<open>usesHashMap\<close> both reach the response
  under that id.
\<close>

theorem unique_ids_counterexample:
  "map id_r (response_criteria (fst (handle_request
      (world_with (Finished (Pydantic three_approaches) (Pydantic duplicate_criteria)))
      two_sum_request)))
     = [u ''usesHashMap'', u ''usesHashMap'']
   \<and> \<not> distinct (map id_r (response_criteria (fst (handle_request
      (world_with (Finished (Pydantic three_approaches) (Pydantic duplicate_criteria)))
      two_sum_request))))"
  using three_approaches_length
  by (simp add: handle_two_sum response_criteria_same process_approaches_Pydantic
        process_criteria_Pydantic sort_key_Nil_iff duplicate_criteria_def
        criterion_named_def same_criterion_def)

text \<open>
  C5, amended. The ids of the response's criteria are the ids the generator produced, in
  the same order and unchanged, so they are pairwise unique exactly when the generator's
  ids are: a duplicate is neither dropped nor renamed.
\<close>

theorem criterion_ids_pass_through:
  assumes "xs \<noteq> []"
  shows "map id_r (response_criteria
           (build_response pd lang
              (solve_leetcode_problem (Finished (Pydantic xs) (Pydantic cs))))) = map id_c cs
         \<and> (distinct (map id_r (response_criteria
              (build_response pd lang
                 (solve_leetcode_problem (Finished (Pydantic xs) (Pydantic cs))))))
            \<longleftrightarrow> distinct (map id_c cs))"
proof -
  have "response_criteria (build_response pd lang
          (solve_leetcode_problem (Finished (Pydantic xs) (Pydantic cs))))
        = map same_criterion cs"
    using assms
    by (simp add: response_criteria_same process_approaches_Pydantic process_criteria_Pydantic
          sort_key_Nil_iff)
  then show ?thesis
    by (simp only: id_r_same simp_thms)
qed

text \<open>
  Six criteria with the ids \<open>c1\<close> to \<open>c6\<close> keep their ids, which are distinct.
\<close>

theorem criterion_ids_pass_through_witness:
  "three_approaches \<noteq> []
   \<and> map id_r (response_criteria
        (build_response (u ''p'') (u ''python'')
           (solve_leetcode_problem (Finished (Pydantic three_approaches) (Pydantic six_criteria)))))
      = [u ''c1'', u ''c2'', u ''c3'', u ''c4'', u ''c5'', u ''c6'']
   \<and> distinct (map id_r (response_criteria
        (build_response (u ''p'') (u ''python'')
           (solve_leetcode_problem (Finished (Pydantic three_approaches) (Pydantic six_criteria))))))"
proof -
  have ne: "three_approaches \<noteq> []"
    using three_approaches_length by simp
  have ids: "map id_c six_criteria = [u ''c1'', u ''c2'', u ''c3'', u ''c4'', u ''c5'', u ''c6'']"
    by (simp add: six_criteria_def criterion_named_def)
  have d: "distinct [u ''c1'', u ''c2'', u ''c3'', u ''c4'', u ''c5'', u ''c6'']"
    by (simp add: u_def)
  show ?thesis
    using criterion_ids_pass_through [OF ne, of "u ''p''" "u ''python''" six_criteria] ne d
    by (simp only: ids simp_thms)
qed

text \<open>
  C7. When the approaches task returns a model with two records, the crew and the response
  hold exactly these two records, every field value unchanged, the one of lower rank first
  (in the given order when the ranks are equal), and the status is \<open>success\<close>.
\<close>

theorem two_records_round_trip:
  "response_approaches
      (build_response pd lang (solve_leetcode_problem (Finished (Pydantic [a, b]) c)))
     = (if rank a \<le> rank b then [same_fields a, same_fields b]
        else [same_fields b, same_fields a])
   \<and> response_status
      (build_response pd lang (solve_leetcode_problem (Finished (Pydantic [a, b]) c)))
     = Some (u ''success'')
   \<and> d_status (solve_leetcode_problem (Finished (Pydantic [a, b]) c)) = u ''success''
   \<and> d_approaches (solve_leetcode_problem (Finished (Pydantic [a, b]) c))
     = (if rank a \<le> rank b then [approach_to_dict a, approach_to_dict b]
        else [approach_to_dict b, approach_to_dict a])"
proof -
  have srt: "process_approaches (Pydantic [a, b]) = (if rank a \<le> rank b then [a, b] else [b, a])"
    by (simp add: process_approaches_Pydantic)
  have r: "response_approaches
      (build_response pd lang (solve_leetcode_problem (Finished (Pydantic [a, b]) c)))
     = (if rank a \<le> rank b then [same_fields a, same_fields b]
        else [same_fields b, same_fields a])"
    unfolding response_approaches_same srt by simp
  have st: "response_status
      (build_response pd lang (solve_leetcode_problem (Finished (Pydantic [a, b]) c)))
     = Some (u ''success'')"
    unfolding response_status_Finished srt by simp
  have d: "d_status (solve_leetcode_problem (Finished (Pydantic [a, b]) c)) = u ''success''
   \<and> d_approaches (solve_leetcode_problem (Finished (Pydantic [a, b]) c))
     = (if rank a \<le> rank b then [approach_to_dict a, approach_to_dict b]
        else [approach_to_dict b, approach_to_dict a])"
    unfolding solve_Finished srt by simp
  from r st d show ?thesis by blast
qed

text \<open>
  C8, as stated, fails: for the raw text of the claim the endpoint returns the whole text as
  its single criterion, for both shapes of the crew's result, even with a \<open>json.loads\<close>
  that parses the array text.
\<close>

theorem embedded_json_counterexample:
  "criteria (analyze_problem loads_array_text (CrewOutput [u ''solution'', raw_text]))
     = [raw_text]
   \<and> criteria (analyze_problem loads_array_text (DictResult (u ''solution'') raw_text))
     = [raw_text]
   \<and> [raw_text] \<noteq> [u ''a'', u ''b'']"
  by (simp add: analyze_problem_def raw_text_criteria raw_text_nonempty raw_text_strip
        jtruthy_def py_str_def)

text \<open>
  C8, amended. The raw text does not start with \<open>[\<close>, so for every \<open>json.loads\<close> the
  endpoint returns the whole text as its single criterion and the handler of
  \<open>JSONDecodeError\<close> does not run. The text that handler would pass to \<open>json.loads\<close>,
  from the first \<open>["\<close> to the last \<open>"]\<close>, is exactly the array text; run on the raw
  text, the handler returns what \<open>json.loads\<close> makes of the array text, which is the list
  of \<open>a\<close> and \<open>b\<close> for a \<open>json.loads\<close> that parses it.
\<close>

theorem embedded_json_gate:
  "criteria (analyze_problem loads (CrewOutput [s, raw_text])) = [raw_text]
   \<and> criteria (analyze_problem loads (DictResult s raw_text)) = [raw_text]
   \<and> json_content raw_text = Some array_text
   \<and> embedded_json_step loads raw_text
       = (case loads array_text of Some criteria_array \<Rightarrow> criteria_array
          | None \<Rightarrow> [JString raw_text])
   \<and> embedded_json_step loads_array_text raw_text = [JString (u ''a''), JString (u ''b'')]"
  by (simp add: analyze_problem_def raw_text_criteria raw_text_nonempty raw_text_strip
        jtruthy_def py_str_def embedded_json_step_def raw_text_json_content
        loads_array_text_def)

text \<open>
  C9. When the response has approaches, its introduction is built from the approach that
  \<open>min\<close> by rank picks: an approach of the list whose rank is lowest. It is that approach's
  title, the separator \<open> - \<close>, the first 200 characters of its content at most, and three
  dots. In a response built from the crew's result this approach is the first of the list.
\<close>

theorem introduction_from_best:
  assumes "response_approaches (build_response pd lang sr) \<noteq> []"
  shows "\<exists>best. py_min r_rank (response_approaches (build_response pd lang sr)) = Some best
           \<and> best \<in> set (response_approaches (build_response pd lang sr))
           \<and> (\<forall>a \<in> set (response_approaches (build_response pd lang sr)).
                 r_rank best \<le> r_rank a)
           \<and> response_introduction (build_response pd lang sr)
               = Some (r_title best @ u '' - '' @ take 200 (r_content best) @ u ''...'')
           \<and> length (take 200 (r_content best)) \<le> 200
           \<and> (\<forall>a c. sr = solve_leetcode_problem (Finished a c)
                 \<longrightarrow> best = hd (response_approaches (build_response pd lang sr)))"
proof -
  let ?A = "response_approaches (build_response pd lang sr)"
  from assms obtain x xs where A: "?A = x # xs"
    by (cases ?A) auto
  let ?best = "min_from r_rank x xs"
  have pm: "py_min r_rank ?A = Some ?best"
    by (simp add: A py_min_def)
  have mem: "?best \<in> set ?A"
    unfolding A by (rule min_from_mem)
  have le: "\<forall>a \<in> set ?A. r_rank ?best \<le> r_rank a"
    unfolding A using min_from_le [of _ x xs r_rank] by blast
  have intro: "response_introduction (build_response pd lang sr)
      = Some (r_title ?best @ u '' - '' @ take 200 (r_content ?best) @ u ''...'')"
    using build_response_introduction(2) [OF assms]
    by (simp add: make_introduction_def pm)
  have first: "?best = hd ?A" if "sr = solve_leetcode_problem (Finished a c)" for a c
  proof -
    have "?A = map same_fields (process_approaches a)"
      using that by (simp add: response_approaches_same)
    moreover have "sorted (map rank (process_approaches a))"
      by (cases a) (simp_all add: process_approaches_def py_sorted_def)
    moreover have "r_rank \<circ> same_fields = rank"
      by (simp add: fun_eq_iff same_fields_def)
    ultimately have "sorted (map r_rank ?A)"
      by simp
    with assms have "py_min r_rank ?A = Some (hd ?A)"
      by (rule py_min_sorted)
    with pm show ?thesis by simp
  qed
  from pm mem le intro first show ?thesis
    by (intro exI [of _ ?best]) simp
qed

text \<open>
  Of three approaches ranked 3, 1 and 2, the introduction is that of \<open>Hash Map\<close>, ranked 1.
\<close>

theorem introduction_from_best_witness:
  "response_approaches (build_response (u ''p'') (u ''python'')
       (solve_leetcode_problem (Finished (Pydantic three_approaches) NoPydanticAttr))) \<noteq> []
   \<and> response_introduction (build_response (u ''p'') (u ''python'')
       (solve_leetcode_problem (Finished (Pydantic three_approaches) NoPydanticAttr)))
     = Some (u ''Hash Map - Scan the array once....'')"
proof -
  let ?R = "build_response (u ''p'') (u ''python'')
       (solve_leetcode_problem (Finished (Pydantic three_approaches) NoPydanticAttr))"
  have A: "response_approaches ?R
     = [same_fields (approach_ranked 1 (u ''Hash Map'')),
        same_fields (approach_ranked 2 (u ''Brute Force'')),
        same_fields (approach_ranked 3 (u ''Sorting''))]"
    by (simp add: response_approaches_same hash_map_first)
  then have ne: "response_approaches ?R \<noteq> []"
    by simp
  have pm: "py_min r_rank (response_approaches ?R)
      = Some (same_fields (approach_ranked 1 (u ''Hash Map'')))"
    unfolding A by (simp add: py_min_def same_fields_def approach_ranked_def)
  have intro_text: "r_title (same_fields (approach_ranked 1 (u ''Hash Map''))) @ u '' - ''
      @ take 200 (r_content (same_fields (approach_ranked 1 (u ''Hash Map'')))) @ u ''...''
      = u ''Hash Map - Scan the array once....''"
    by (simp add: same_fields_def approach_ranked_def u_def)
  from introduction_from_best [OF ne] pm intro_text ne show ?thesis
    by auto
qed

end
